theory Spec2Isabelle
  imports Main "HOL-Library.Sublist"
begin

section \<open>JavaScript values and the operators the models use\<close>

text \<open>
  The primitive values that reach the query builders. A number is modelled by an
  integer: \<open>JNum n\<close> stands for the JavaScript number \<open>n\<close> when \<open>n\<close> is a safe integer
  (\<open>js_value\<close> below); fractions, larger magnitudes, NaN and the infinities are not
  values of the model, and neither are objects, arrays and functions.
\<close>

datatype jsval = JUndefined | JNull | JBool bool | JNum int | JStr string

definition js_value :: "jsval \<Rightarrow> bool" where
  "js_value v = (case v of JNum n \<Rightarrow> \<bar>n\<bar> \<le> 9007199254740991 | _ \<Rightarrow> True)"

text \<open>The exceptions of the repository, each with its message, and a failure raised
  by the query executor \<open>db.query\<close> itself (carrying the store's error code).\<close>

datatype js_error = BadRequestError string | NotFoundError string | StoreError string

text \<open>\<open>ToBoolean\<close>: the test of \<open>if (x)\<close> and of \<open>x || y\<close>.\<close>

fun truthy :: "jsval \<Rightarrow> bool" where
  "truthy JUndefined = False"
| "truthy JNull = False"
| "truthy (JBool b) = b"
| "truthy (JNum n) = (n \<noteq> 0)"
| "truthy (JStr s) = (s \<noteq> [])"

text \<open>Decimal digits of a natural number: \<open>String(n)\<close> for a non-negative integer.\<close>

definition digit_char :: "nat \<Rightarrow> char" where
  "digit_char d = ''0123456789'' ! d"

fun num_to_string :: "nat \<Rightarrow> string" where
  "num_to_string n =
     (if n < 10 then [digit_char n]
      else num_to_string (n div 10) @ [digit_char (n mod 10)])"

definition int_to_string :: "int \<Rightarrow> string" where
  "int_to_string i =
     (if i < 0 then ''-'' @ num_to_string (nat (- i)) else num_to_string (nat i))"

text \<open>\<open>ToString\<close>, as applied by a template literal \<open>`${x}`\<close>. A safe integer prints
  as its decimal digits (larger numbers print rounded or with an exponent in JavaScript,
  and are not values of the model).\<close>

fun js_to_string :: "jsval \<Rightarrow> string" where
  "js_to_string JUndefined = ''undefined''"
| "js_to_string JNull = ''null''"
| "js_to_string (JBool b) = (if b then ''true'' else ''false'')"
| "js_to_string (JNum n) = int_to_string n"
| "js_to_string (JStr s) = s"

text \<open>
  \<open>StringToNumber\<close>, within the integers of the model: white space is trimmed, the empty
  string is 0, and an optional sign followed by decimal digits is that integer. Every
  other string is NaN (\<open>None\<close>) here; JavaScript also reads fractions, exponents, radix
  prefixes and \<open>Infinity\<close>, whose values the model does not have. The conversion is used
  only when \<open>a > b\<close> compares a string with a value that is not a string; the
  properties below that depend on the outcome of a comparison are stated for bounds that
  are numbers or absent.
\<close>

definition is_space :: "char \<Rightarrow> bool" where
  "is_space c = (c \<in> set [CHR 0x09, CHR 0x0A, CHR 0x0B, CHR 0x0C, CHR 0x0D, CHR 0x20])"

definition is_digit :: "char \<Rightarrow> bool" where
  "is_digit c = (c \<in> set ''0123456789'')"

definition digit_val :: "char \<Rightarrow> int" where
  "digit_val c = of_char c - 48"

definition trim :: "string \<Rightarrow> string" where
  "trim s = rev (dropWhile is_space (rev (dropWhile is_space s)))"

definition digits_value :: "string \<Rightarrow> int option" where
  "digits_value ds =
     (if ds \<noteq> [] \<and> list_all is_digit ds
      then Some (foldl (\<lambda>acc c. 10 * acc + digit_val c) 0 ds) else None)"

definition string_to_number :: "string \<Rightarrow> int option" where
  "string_to_number s =
     (case trim s of
        [] \<Rightarrow> Some 0
      | c # cs \<Rightarrow>
          if c = CHR ''-'' then map_option uminus (digits_value cs)
          else if c = CHR ''+'' then digits_value cs
          else digits_value (c # cs))"

fun to_number :: "jsval \<Rightarrow> int option" where
  "to_number JUndefined = None"
| "to_number JNull = Some 0"
| "to_number (JBool b) = Some (if b then 1 else 0)"
| "to_number (JNum n) = Some n"
| "to_number (JStr s) = string_to_number s"

text \<open>Comparison of two strings by code units: \<open>str_less x y\<close> is \<open>x < y\<close>.\<close>

fun str_less :: "string \<Rightarrow> string \<Rightarrow> bool" where
  "str_less [] [] = False"
| "str_less [] (y # ys) = True"
| "str_less (x # xs) [] = False"
| "str_less (x # xs) (y # ys) =
     ((of_char x :: nat) < of_char y \<or> (x = y \<and> str_less xs ys))"

text \<open>The operator \<open>a > b\<close>: two strings compare by code units; otherwise both
  operands convert to numbers, and the result is false when either is NaN.\<close>

definition js_gt :: "jsval \<Rightarrow> jsval \<Rightarrow> bool" where
  "js_gt a b =
     (case (a, b) of
        (JStr x, JStr y) \<Rightarrow> str_less y x
      | _ \<Rightarrow> (case (to_number a, to_number b) of
                (Some m, Some n) \<Rightarrow> n < m
              | _ \<Rightarrow> False))"

text \<open>\<open>Array.prototype.join\<close> on an array of strings.\<close>

fun join :: "string \<Rightarrow> string list \<Rightarrow> string" where
  "join sep [] = []"
| "join sep [x] = x"
| "join sep (x # y # ys) = x @ sep @ join sep (y # ys)"

text \<open>\<open>Array.prototype.map\<close> with a callback that takes the element and its index;
  \<open>xs.map(f)\<close> is \<open>map_idx f 0 xs\<close>.\<close>

fun map_idx :: "('a \<Rightarrow> nat \<Rightarrow> 'b) \<Rightarrow> nat \<Rightarrow> 'a list \<Rightarrow> 'b list" where
  "map_idx f i [] = []"
| "map_idx f i (x # xs) = f x i # map_idx f (Suc i) xs"


section \<open>helpers/sql.js: sqlForPartialUpdate\<close>

text \<open>
  An object is given by its own entries in insertion order (keys distinct).
  \<open>Object.keys\<close> and \<open>Object.values\<close> enumerate the entries whose key is an array
  index (a canonical decimal numeral below \<open>2^32 - 1\<close>) first, in ascending numeric
  order, and then the other entries in insertion order.
\<close>

definition array_index :: "string \<Rightarrow> int option" where
  "array_index k =
     (case digits_value k of
        None \<Rightarrow> None
      | Some n \<Rightarrow>
          if (k = ''0'' \<or> hd k \<noteq> CHR ''0'') \<and> n < 4294967295 then Some n else None)"

definition index_key :: "string \<Rightarrow> int" where
  "index_key k = (case array_index k of None \<Rightarrow> 0 | Some n \<Rightarrow> n)"

definition own_property_order :: "(string \<times> 'a) list \<Rightarrow> (string \<times> 'a) list" where
  "own_property_order entries =
     sort_key (\<lambda>e. index_key (fst e)) (filter (\<lambda>e. array_index (fst e) \<noteq> None) entries)
     @ filter (\<lambda>e. array_index (fst e) = None) entries"

text \<open>
  The mapping \<open>jsToSql\<close> is an object literal at both call sites: a plain object, whose
  own entries are the map \<open>jsToSql\<close> below and whose prototype is \<open>Object.prototype\<close>.
  The property read \<open>jsToSql[colName]\<close> finds an own entry first and otherwise a
  property inherited from \<open>Object.prototype\<close>. The inherited values are functions, and
  for \<open>__proto__\<close> the prototype object itself; all are truthy, and the template
  literal prints them as the texts below (the function text is the one of Node's engine).
\<close>

definition native_function_text :: "string \<Rightarrow> string" where
  "native_function_text f = ''function '' @ f @ ''() { [native code] }''"

definition object_prototype :: "string \<rightharpoonup> string" where
  "object_prototype =
     [''constructor'' \<mapsto> native_function_text ''Object'',
      ''__defineGetter__'' \<mapsto> native_function_text ''__defineGetter__'',
      ''__defineSetter__'' \<mapsto> native_function_text ''__defineSetter__'',
      ''hasOwnProperty'' \<mapsto> native_function_text ''hasOwnProperty'',
      ''__lookupGetter__'' \<mapsto> native_function_text ''__lookupGetter__'',
      ''__lookupSetter__'' \<mapsto> native_function_text ''__lookupSetter__'',
      ''isPrototypeOf'' \<mapsto> native_function_text ''isPrototypeOf'',
      ''propertyIsEnumerable'' \<mapsto> native_function_text ''propertyIsEnumerable'',
      ''toString'' \<mapsto> native_function_text ''toString'',
      ''valueOf'' \<mapsto> native_function_text ''valueOf'',
      ''toLocaleString'' \<mapsto> native_function_text ''toLocaleString'',
      ''__proto__'' \<mapsto> ''[object Object]'']"

text \<open>The text that \<open>${jsToSql[colName] || colName}\<close> prints: an own entry that is the
  empty string is falsy, and so is a missing property.\<close>

definition column_text :: "(string \<rightharpoonup> string) \<Rightarrow> string \<Rightarrow> string" where
  "column_text jsToSql colName =
     (case jsToSql colName of
        Some c \<Rightarrow> if c \<noteq> [] then c else colName
      | None \<Rightarrow> (case object_prototype colName of Some t \<Rightarrow> t | None \<Rightarrow> colName))"

record set_clause =
  setCols :: string
  values' :: "jsval list"

definition sqlForPartialUpdate ::
  "(string \<times> jsval) list \<Rightarrow> (string \<rightharpoonup> string) \<Rightarrow> js_error + set_clause" where
  \<open>sqlForPartialUpdate dataToUpdate jsToSql =
     (let keys = map fst (own_property_order dataToUpdate) in
      if length keys = 0 then Inl (BadRequestError ''No data'')
      else
        let cols = map_idx (\<lambda>colName idx.
              ''"'' @ column_text jsToSql colName @ ''"=$'' @ num_to_string (idx + 1)) 0 keys
        in Inr \<lparr>setCols = join '', '' cols,
                 values' = map snd (own_property_order dataToUpdate)\<rparr>)\<close>

text \<open>The column of a field as the specification words it: the mapping's entry, the
  field name when the mapping has none; and the fragment as the specification words it,
  over the entries in insertion order.\<close>

definition spec_column :: "(string \<rightharpoonup> string) \<Rightarrow> string \<Rightarrow> string" where
  "spec_column fieldMapping field =
     (case fieldMapping field of None \<Rightarrow> field | Some c \<Rightarrow> c)"

definition spec_setCols :: "(string \<times> jsval) list \<Rightarrow> (string \<rightharpoonup> string) \<Rightarrow> string" where
  \<open>spec_setCols partialData fieldMapping =
     join '', '' (map (\<lambda>i. ''"'' @ spec_column fieldMapping (fst (partialData ! i))
                            @ ''"=$'' @ num_to_string (i + 1))
                      [0..<length partialData])\<close>

section \<open>The query executor\<close>

text \<open>
  \<open>db.query(text, values)\<close> is the only access to the store. It is a parameter of
  the models: a function of the statement text, the bound values and the store's state,
  which returns the rows or raises, together with the new state of the store.
\<close>

type_synonym row = "(string \<times> jsval) list"

type_synonym 's executor =
  "string \<Rightarrow> jsval list \<Rightarrow> 's \<Rightarrow> (js_error + row list) \<times> 's"

text \<open>The local variables of \<open>findAll\<close> at its call of \<open>db.query\<close>.\<close>

record findAll_locals =
  queryString :: string
  queryAdders :: "string list"
  queryValues :: "jsval list"


section \<open>models/company.js\<close>

subsection \<open>Company.create\<close>

definition company_duplicate_sql :: string where
  \<open>company_duplicate_sql =
     ''SELECT handle\<newline>'' @
     ''           FROM companies\<newline>'' @
     ''           WHERE handle = $1''\<close>

definition company_insert_sql :: string where
  \<open>company_insert_sql =
     ''INSERT INTO companies\<newline>'' @
     ''           (handle, name, description, num_employees, logo_url)\<newline>'' @
     ''           VALUES ($1, $2, $3, $4, $5)\<newline>'' @
     ''           RETURNING handle, name, description, num_employees AS "numEmployees", logo_url AS "logoUrl"''\<close>

text \<open>The argument object is destructured into its five members. The result is
  \<open>result.rows[0]\<close>, which is \<open>undefined\<close> (\<open>None\<close>) when the insert returns no row.\<close>

definition company_create ::
  "'s executor \<Rightarrow> jsval \<Rightarrow> jsval \<Rightarrow> jsval \<Rightarrow> jsval \<Rightarrow> jsval \<Rightarrow> 's
     \<Rightarrow> (js_error + row option) \<times> 's" where
  "company_create query handle name description numEmployees logoUrl s =
     (case query company_duplicate_sql [handle] s of
        (Inl e, s1) \<Rightarrow> (Inl e, s1)
      | (Inr duplicateCheck, s1) \<Rightarrow>
          if duplicateCheck \<noteq> []
          then (Inl (BadRequestError (''Duplicate company: '' @ js_to_string handle)), s1)
          else
            (case query company_insert_sql
                    [handle, name, description, numEmployees, logoUrl] s1 of
               (Inl e, s2) \<Rightarrow> (Inl e, s2)
             | (Inr result, s2) \<Rightarrow>
                 (Inr (case result of [] \<Rightarrow> None | company # _ \<Rightarrow> Some company), s2)))"

subsection \<open>Company.findAll\<close>

text \<open>The filter object after destructuring: a member that the object lacks is
  \<open>undefined\<close>. The default argument \<open>{}\<close> has all three undefined.\<close>

record company_filter =
  name :: jsval
  minEmployees :: jsval
  maxEmployees :: jsval

definition company_select_sql :: string where
  \<open>company_select_sql =
     ''SELECT handle,\<newline>'' @
     ''                  name,\<newline>'' @
     ''                  description,\<newline>'' @
     ''                  num_employees AS "numEmployees",\<newline>'' @
     ''                  logo_url AS "logoUrl"\<newline>'' @
     ''           FROM companies''\<close>

definition company_findAll_query :: "company_filter \<Rightarrow> js_error + findAll_locals" where
  "company_findAll_query filter' =
     (let queryString = company_select_sql;
          queryAdders = [];
          queryValues = []
      in
        if js_gt (minEmployees filter') (maxEmployees filter')
        then Inl (BadRequestError ''minimum input can not be higher than maximum input'')
        else
          let (queryAdders, queryValues) =
                (if truthy (name filter') then
                   let queryValues = queryValues @ [JStr (''%'' @ js_to_string (name filter') @ ''%'')];
                       queryAdders = queryAdders @ [''name ILIKE $'' @ num_to_string (length queryValues)]
                   in (queryAdders, queryValues)
                 else (queryAdders, queryValues));
              (queryAdders, queryValues) =
                (if minEmployees filter' \<noteq> JUndefined then
                   let queryValues = queryValues @ [minEmployees filter'];
                       queryAdders = queryAdders @ [''num_employees >= $'' @ num_to_string (length queryValues)]
                   in (queryAdders, queryValues)
                 else (queryAdders, queryValues));
              (queryAdders, queryValues) =
                (if maxEmployees filter' \<noteq> JUndefined then
                   let queryValues = queryValues @ [maxEmployees filter'];
                       queryAdders = queryAdders @ [''num_employees <= $'' @ num_to_string (length queryValues)]
                   in (queryAdders, queryValues)
                 else (queryAdders, queryValues));
              queryString =
                (if length queryAdders > 0 then
                   let filterString = join '' AND '' queryAdders
                   in queryString @ '' WHERE '' @ filterString
                 else queryString);
              queryString = queryString @ '' ORDER BY name''
          in Inr \<lparr>queryString = queryString, queryAdders = queryAdders,
                    queryValues = queryValues\<rparr>)"

definition company_findAll ::
  "'s executor \<Rightarrow> company_filter \<Rightarrow> 's \<Rightarrow> (js_error + row list) \<times> 's" where
  "company_findAll query filter' s =
     (case company_findAll_query filter' of
        Inl e \<Rightarrow> (Inl e, s)
      | Inr l \<Rightarrow> query (queryString l) (queryValues l) s)"

subsection \<open>Company.update\<close>

definition company_jsToSql :: "string \<rightharpoonup> string" where
  "company_jsToSql =
     [''numEmployees'' \<mapsto> ''num_employees'', ''logoUrl'' \<mapsto> ''logo_url'']"

text \<open>The statement and the values that \<open>update\<close> passes to \<open>db.query\<close>.\<close>

definition company_update_query ::
  "jsval \<Rightarrow> (string \<times> jsval) list \<Rightarrow> js_error + string \<times> jsval list" where
  \<open>company_update_query handle data =
     (case sqlForPartialUpdate data company_jsToSql of
        Inl e \<Rightarrow> Inl e
      | Inr r \<Rightarrow>
          let handleVarIdx = ''$'' @ num_to_string (length (values' r) + 1);
              querySql =
                ''UPDATE companies \<newline>'' @
                ''                      SET '' @ setCols r @ '' \<newline>'' @
                ''                      WHERE handle = '' @ handleVarIdx @ '' \<newline>'' @
                ''                      RETURNING handle, \<newline>'' @
                ''                                name, \<newline>'' @
                ''                                description, \<newline>'' @
                ''                                num_employees AS "numEmployees", \<newline>'' @
                ''                                logo_url AS "logoUrl"''
          in Inr (querySql, values' r @ [handle]))\<close>

definition company_update ::
  "'s executor \<Rightarrow> jsval \<Rightarrow> (string \<times> jsval) list \<Rightarrow> 's \<Rightarrow> (js_error + row) \<times> 's" where
  "company_update query handle data s =
     (case company_update_query handle data of
        Inl e \<Rightarrow> (Inl e, s)
      | Inr (querySql, vs) \<Rightarrow>
          (case query querySql vs s of
             (Inl e, s1) \<Rightarrow> (Inl e, s1)
           | (Inr result, s1) \<Rightarrow>
               (case result of
                  [] \<Rightarrow> (Inl (NotFoundError (''No company: '' @ js_to_string handle)), s1)
                | company # _ \<Rightarrow> (Inr company, s1))))"


section \<open>models/jobs.js\<close>

subsection \<open>Job.create\<close>

definition job_duplicate_sql :: string where
  \<open>job_duplicate_sql =
     ''SELECT id\<newline>'' @
     ''        FROM jobs\<newline>'' @
     ''        WHERE id = $1''\<close>

definition job_insert_sql :: string where
  \<open>job_insert_sql =
     ''INSERT INTO jobs\<newline>'' @
     ''        (id, title, salary, equity, company_handle)\<newline>'' @
     ''        VALUES ($1, $2, $3, $4, $5)\<newline>'' @
     ''        RETURNING id, title, salary, equity, company_handle AS "companyHandle"''\<close>

definition job_create ::
  "'s executor \<Rightarrow> jsval \<Rightarrow> jsval \<Rightarrow> jsval \<Rightarrow> jsval \<Rightarrow> jsval \<Rightarrow> 's
     \<Rightarrow> (js_error + row option) \<times> 's" where
  "job_create query id' title salary equity companyHandle s =
     (case query job_duplicate_sql [id'] s of
        (Inl e, s1) \<Rightarrow> (Inl e, s1)
      | (Inr duplicateCheck, s1) \<Rightarrow>
          if duplicateCheck \<noteq> []
          then (Inl (BadRequestError (''Duplicate job: '' @ js_to_string title)), s1)
          else
            (case query job_insert_sql [id', title, salary, equity, companyHandle] s1 of
               (Inl e, s2) \<Rightarrow> (Inl e, s2)
             | (Inr result, s2) \<Rightarrow>
                 (Inr (case result of [] \<Rightarrow> None | job # _ \<Rightarrow> Some job), s2)))"

subsection \<open>Job.findAll\<close>

record job_filter =
  title :: jsval
  minSalary :: jsval
  hasEquity :: jsval

definition job_select_sql :: string where
  \<open>job_select_sql =
     ''SELECT title,\<newline>'' @
     ''                salary,\<newline>'' @
     ''                equity,\<newline>'' @
     ''                company_handle AS "companyHandle"\<newline>'' @
     ''        FROM jobs''\<close>

text \<open>The call of \<open>console.log\<close> in the \<open>hasEquity\<close> branch writes to the process
  output only and is left out.\<close>

definition job_findAll_query :: "job_filter \<Rightarrow> findAll_locals" where
  "job_findAll_query filter' =
     (let queryString = job_select_sql;
          queryAdders = [];
          queryValues = [];
          (queryAdders, queryValues) =
            (if truthy (title filter') then
               let queryValues = queryValues @ [JStr (''%'' @ js_to_string (title filter') @ ''%'')];
                   queryAdders = queryAdders @ [''title ILIKE $'' @ num_to_string (length queryValues)]
               in (queryAdders, queryValues)
             else (queryAdders, queryValues));
          (queryAdders, queryValues) =
            (if minSalary filter' \<noteq> JUndefined then
               let queryValues = queryValues @ [minSalary filter'];
                   queryAdders = queryAdders @ [''salary >= $'' @ num_to_string (length queryValues)]
               in (queryAdders, queryValues)
             else (queryAdders, queryValues));
          queryAdders =
            (if hasEquity filter' = JStr ''true'' then queryAdders @ [''equity > 0'']
             else queryAdders);
          queryString =
            (if length queryAdders > 0 then
               let filterString = join '' AND '' queryAdders
               in queryString @ '' WHERE '' @ filterString
             else queryString);
          queryString = queryString @ '' ORDER BY title''
      in \<lparr>queryString = queryString, queryAdders = queryAdders,
           queryValues = queryValues\<rparr>)"

definition job_findAll ::
  "'s executor \<Rightarrow> job_filter \<Rightarrow> 's \<Rightarrow> (js_error + row list) \<times> 's" where
  "job_findAll query filter' s =
     (let l = job_findAll_query filter' in query (queryString l) (queryValues l) s)"

subsection \<open>Job.update\<close>

definition job_jsToSql :: "string \<rightharpoonup> string" where
  "job_jsToSql =
     [''title'' \<mapsto> ''title'', ''salary'' \<mapsto> ''salary'', ''equity'' \<mapsto> ''equity'']"

definition job_update_query ::
  "jsval \<Rightarrow> (string \<times> jsval) list \<Rightarrow> js_error + string \<times> jsval list" where
  \<open>job_update_query id' data =
     (case sqlForPartialUpdate data job_jsToSql of
        Inl e \<Rightarrow> Inl e
      | Inr r \<Rightarrow>
          let idVarIdx = ''$'' @ num_to_string (length (values' r) + 1);
              querySql =
                ''UPDATE jobs \<newline>'' @
                ''                    SET '' @ setCols r @ '' \<newline>'' @
                ''                    WHERE id = '' @ idVarIdx @ '' \<newline>'' @
                ''                    RETURNING id, \<newline>'' @
                ''                            title, \<newline>'' @
                ''                            salary, \<newline>'' @
                ''                            equity, \<newline>'' @
                ''                            company_handle AS "companyHandle"''
          in Inr (querySql, values' r @ [id']))\<close>

definition job_update ::
  "'s executor \<Rightarrow> jsval \<Rightarrow> (string \<times> jsval) list \<Rightarrow> 's \<Rightarrow> (js_error + row) \<times> 's" where
  "job_update query id' data s =
     (case job_update_query id' data of
        Inl e \<Rightarrow> (Inl e, s)
      | Inr (querySql, vs) \<Rightarrow>
          (case query querySql vs s of
             (Inl e, s1) \<Rightarrow> (Inl e, s1)
           | (Inr result, s1) \<Rightarrow>
               (case result of
                  [] \<Rightarrow> (Inl (NotFoundError (''No job: '' @ js_to_string id')), s1)
                | job # _ \<Rightarrow> (Inr job, s1))))"


section \<open>Stores and notions used to state the properties\<close>

text \<open>A store in which another client inserts the same key between the existence
  check and the insert: the first statement executed finds no row, every later one
  fails with the store's uniqueness violation (PostgreSQL error code 23505). The state
  counts the statements executed.\<close>

definition insert_conflict :: "nat executor" where
  "insert_conflict text vals n =
     (if n = 0 then (Inr [], Suc n) else (Inl (StoreError ''23505''), Suc n))"

text \<open>A store that answers every statement with one row for the company \<open>c1\<close>.\<close>

definition existing_key :: "unit executor" where
  "existing_key text vals u = (Inr [[(''handle'', JStr ''c1'')]], u)"

text \<open>The field names a filter object supplies, as the specification counts them: the
  members that are not \<open>undefined\<close>.\<close>

definition company_supplied :: "company_filter \<Rightarrow> string list" where
  "company_supplied f =
     (if name f \<noteq> JUndefined then [''name''] else []) @
     (if minEmployees f \<noteq> JUndefined then [''minEmployees''] else []) @
     (if maxEmployees f \<noteq> JUndefined then [''maxEmployees''] else [])"

definition job_supplied :: "job_filter \<Rightarrow> string list" where
  "job_supplied g =
     (if title g \<noteq> JUndefined then [''title''] else []) @
     (if minSalary g \<noteq> JUndefined then [''minSalary''] else []) @
     (if hasEquity g \<noteq> JUndefined then [''hasEquity''] else [])"



text \<open>A store that answers every statement with no row and keeps the list of the
  calls it received, each with its statement text and its bound values.\<close>

definition recording :: "(string \<times> jsval list) list executor" where
  "recording text vals calls = (Inr [], calls @ [(text, vals)])"

text \<open>
  The company filters of the specification's data model: each bound is an integer or
  absent, and when both are present \<open>minEmployees\<close> does not exceed \<open>maxEmployees\<close>.
\<close>

definition spec_company_criteria :: "company_filter \<Rightarrow> bool" where
  "spec_company_criteria cf =
     (js_value (name cf) \<and>
      (case minEmployees cf of
         JUndefined \<Rightarrow>
           (case maxEmployees cf of JUndefined \<Rightarrow> True | JNum b \<Rightarrow> True | _ \<Rightarrow> False)
       | JNum a \<Rightarrow>
           (case maxEmployees cf of JUndefined \<Rightarrow> True | JNum b \<Rightarrow> a \<le> b | _ \<Rightarrow> False)
       | _ \<Rightarrow> False))"

text \<open>
  The \<open>WHERE\<close> part as the specification words it: nothing when no predicate is present;
  otherwise the keyword, the first predicate, and every further predicate preceded by
  \<open>AND\<close>.
\<close>

fun spec_where :: "string list \<Rightarrow> string" where
  "spec_where [] = []"
| "spec_where (p # ps) = '' WHERE '' @ p @ concat (map (\<lambda>q. '' AND '' @ q) ps)"

text \<open>
  The predicates and the bound values of a filter as the specification lists them, in
  its fixed order: substring filter, lower bound, upper bound (company) or equity flag
  (job). A substring filter counts as present when it is truthy, a bound when it is not
  \<open>undefined\<close>; placeholders number the bound values from 1.
\<close>

definition spec_company_predicates :: "company_filter \<Rightarrow> string list" where
  "spec_company_predicates cf =
     (if truthy (name cf) then [''name ILIKE $1''] else []) @
     (if minEmployees cf \<noteq> JUndefined
      then [if truthy (name cf) then ''num_employees >= $2'' else ''num_employees >= $1'']
      else []) @
     (if maxEmployees cf \<noteq> JUndefined
      then [if truthy (name cf)
            then (if minEmployees cf \<noteq> JUndefined
                  then ''num_employees <= $3'' else ''num_employees <= $2'')
            else (if minEmployees cf \<noteq> JUndefined
                  then ''num_employees <= $2'' else ''num_employees <= $1'')]
      else [])"

definition spec_company_values :: "company_filter \<Rightarrow> jsval list" where
  "spec_company_values cf =
     (if truthy (name cf) then [JStr (''%'' @ js_to_string (name cf) @ ''%'')] else []) @
     (if minEmployees cf \<noteq> JUndefined then [minEmployees cf] else []) @
     (if maxEmployees cf \<noteq> JUndefined then [maxEmployees cf] else [])"

definition spec_job_predicates :: "job_filter \<Rightarrow> string list" where
  "spec_job_predicates jf =
     (if truthy (title jf) then [''title ILIKE $1''] else []) @
     (if minSalary jf \<noteq> JUndefined
      then [if truthy (title jf) then ''salary >= $2'' else ''salary >= $1'']
      else []) @
     (if hasEquity jf = JStr ''true'' then [''equity > 0''] else [])"

definition spec_job_values :: "job_filter \<Rightarrow> jsval list" where
  "spec_job_values jf =
     (if truthy (title jf) then [JStr (''%'' @ js_to_string (title jf) @ ''%'')] else []) @
     (if minSalary jf \<noteq> JUndefined then [minSalary jf] else [])"


section \<open>Properties of sqlForPartialUpdate\<close>

text \<open>The equation of \<open>num_to_string\<close> is unfolded on numerals only.\<close>

declare num_to_string.simps [simp del]

lemma num_to_string_digits:
  "num_to_string (Suc 0) = ''1''"
  "num_to_string (Suc (Suc 0)) = ''2''"
  "num_to_string (Suc (Suc (Suc 0))) = ''3''"
  "num_to_string 1 = ''1''"
  "num_to_string 2 = ''2''"
  "num_to_string 3 = ''3''"
  by (simp_all add: num_to_string.simps digit_char_def)

lemma length_map_idx: "length (map_idx f k xs) = length xs"
  by (induction xs arbitrary: k) simp_all

lemma nth_map_idx:
  "i < length xs \<Longrightarrow> map_idx f k xs ! i = f (xs ! i) (k + i)"
proof (induction xs arbitrary: k i)
  case Nil
  then show ?case by simp
next
  case (Cons x xs)
  show ?case
  proof (cases i)
    case 0
    then show ?thesis by simp
  next
    case (Suc j)
    with Cons.prems have "j < length xs" by simp
    from Cons.IH [OF this, of "Suc k"] Suc show ?thesis by simp
  qed
qed

lemma map_idx_map:
  "map_idx f 0 (map g xs) = map (\<lambda>i. f (g (xs ! i)) i) [0..<length xs]"
  by (rule nth_equalityI) (simp_all add: length_map_idx nth_map_idx)

text \<open>The enumeration order keeps the entries, and is determined by the keys.\<close>

lemma length_own_property_order [simp]:
  "length (own_property_order es) = length es"
proof -
  have "length (filter (\<lambda>e. array_index (fst e) \<noteq> None) es)
        + length (filter (\<lambda>e. array_index (fst e) = None) es) = length es"
    by (induction es) simp_all
  then show ?thesis
    by (simp add: own_property_order_def)
qed

lemma set_own_property_order [simp]:
  "set (own_property_order es) = set es"
  by (auto simp add: own_property_order_def)

lemma own_property_order_Nil_iff [simp]:
  "own_property_order es = [] \<longleftrightarrow> es = []"
  using length_own_property_order [of es] by (metis length_0_conv)

lemma own_property_order_no_index:
  assumes "\<forall>e \<in> set es. array_index (fst e) = None"
  shows "own_property_order es = es"
proof -
  from assms have "filter (\<lambda>e. array_index (fst e) \<noteq> None) es = []"
    by (simp add: filter_empty_conv)
  moreover from assms have "filter (\<lambda>e. array_index (fst e) = None) es = es"
    by (simp add: filter_id_conv)
  ultimately show ?thesis
    by (simp add: own_property_order_def)
qed

lemma map_fst_insort_key:
  "map fst (insort_key (\<lambda>e. g (fst e)) x xs) = insort_key g (fst x) (map fst xs)"
  by (induction xs) simp_all

lemma map_fst_sort_key:
  "map fst (sort_key (\<lambda>e. g (fst e)) xs) = sort_key g (map fst xs)"
  by (induction xs) (simp_all add: map_fst_insort_key)

lemma map_fst_own_property_order:
  "map fst (own_property_order es) =
     sort_key index_key (filter (\<lambda>k. array_index k \<noteq> None) (map fst es))
     @ filter (\<lambda>k. array_index k = None) (map fst es)"
  by (simp add: own_property_order_def map_fst_sort_key filter_map comp_def)

text \<open>The result of \<open>sqlForPartialUpdate\<close> on a non-empty object, entry by entry in
  the enumeration order.\<close>

lemma sqlForPartialUpdate_nonempty:
  assumes "dataToUpdate \<noteq> []"
  shows \<open>sqlForPartialUpdate dataToUpdate jsToSql =
     Inr \<lparr>setCols = join '', ''
            (map (\<lambda>i. ''"'' @ column_text jsToSql (fst (own_property_order dataToUpdate ! i))
                          @ ''"=$'' @ num_to_string (i + 1))
                 [0..<length dataToUpdate]),
          values' = map snd (own_property_order dataToUpdate)\<rparr>\<close>
  using assms by (simp add: sqlForPartialUpdate_def Let_def map_idx_map)

lemma array_index_not_digit:
  "\<not> is_digit c \<Longrightarrow> array_index (c # cs) = None"
  by (simp add: array_index_def digits_value_def)

lemma column_text_spec_column:
  assumes "case jsToSql k of Some c \<Rightarrow> c \<noteq> [] | None \<Rightarrow> object_prototype k = None"
  shows "column_text jsToSql k = spec_column jsToSql k"
  using assms by (simp add: column_text_def spec_column_def split: option.splits)

text \<open>
  Claim C1, as stated, has the tokens in insertion order with the mapping's entry, or the
  field name when the mapping has none, as the column. The code enumerates the object
  with \<open>Object.keys\<close>, which puts array-index names first: \<open>{b: 1, "1": 2}\<close> gives
  \<open>"1"=$1, "b"=$2\<close> with the values \<open>[2, 1]\<close>, where the claim has \<open>"b"=$1, "1"=$2\<close>. And
  the read \<open>jsToSql[colName]\<close> also finds the properties every object inherits:
  \<open>{constructor: 1}\<close> with the mapping of \<open>Company.update\<close>, which has no such entry,
  gives the text of the inherited function as the column, where the claim has
  \<open>"constructor"=$1\<close>.
\<close>

theorem sqlForPartialUpdate_order_counterexample:
  \<open>sqlForPartialUpdate [(''b'', JNum 1), (''1'', JNum 2)] Map.empty =
     Inr \<lparr>setCols = ''"1"=$1, "b"=$2'', values' = [JNum 2, JNum 1]\<rparr>
   \<and> spec_setCols [(''b'', JNum 1), (''1'', JNum 2)] Map.empty = ''"b"=$1, "1"=$2''
   \<and> sqlForPartialUpdate [(''constructor'', JNum 1)] company_jsToSql =
     Inr \<lparr>setCols = ''"function Object() { [native code] }"=$1'', values' = [JNum 1]\<rparr>
   \<and> spec_setCols [(''constructor'', JNum 1)] company_jsToSql = ''"constructor"=$1''\<close>
  by (simp add: sqlForPartialUpdate_def spec_setCols_def spec_column_def column_text_def
      object_prototype_def native_function_text_def company_jsToSql_def
      own_property_order_def index_key_def array_index_def digits_value_def is_digit_def
      digit_val_def num_to_string_digits upt_conv_Cons)

text \<open>
  Claim C1, amended: for every non-empty \<open>dataToUpdate\<close> with \<open>N\<close> entries and every
  mapping in which each field of \<open>dataToUpdate\<close> has a non-empty entry, or has no entry
  and is not the name of a property inherited from \<open>Object.prototype\<close> (for such names
  nothing is stated), \<open>sqlForPartialUpdate\<close> returns the fragment that joins with
  \<open>", "\<close> the tokens \<open>"<column>"=$<i>\<close> for \<open>i = 1..N\<close> in the order in which
  \<open>Object.keys\<close> enumerates the entries, where \<open><column>\<close> is the mapping's entry for
  the field and the field name when the mapping has none, together with the list of the
  \<open>N\<close> values of the entries in the same order. That order is the insertion order when
  no field name is an array index; array-index names come first, in ascending numeric
  order. In particular the object \<open>{firstName: "user", lastName: "test"}\<close> with the
  mapping \<open>{firstName: "first_name", lastName: "last_name"}\<close> gives
  \<open>"first_name"=$1, "last_name"=$2\<close> and \<open>["user", "test"]\<close>.
\<close>

theorem sqlForPartialUpdate_fragment:
  assumes "dataToUpdate \<noteq> []"
    and "\<forall>k \<in> set (map fst dataToUpdate).
           (case jsToSql k of Some c \<Rightarrow> c \<noteq> [] | None \<Rightarrow> object_prototype k = None)"
  shows \<open>sqlForPartialUpdate dataToUpdate jsToSql =
     Inr \<lparr>setCols = spec_setCols (own_property_order dataToUpdate) jsToSql,
          values' = map snd (own_property_order dataToUpdate)\<rparr>
   \<and> ((\<forall>k \<in> set (map fst dataToUpdate). array_index k = None) \<longrightarrow>
        own_property_order dataToUpdate = dataToUpdate)
   \<and> sqlForPartialUpdate
        [(''firstName'', JStr ''user''), (''lastName'', JStr ''test'')]
        [''firstName'' \<mapsto> ''first_name'', ''lastName'' \<mapsto> ''last_name''] =
     Inr \<lparr>setCols = ''"first_name"=$1, "last_name"=$2'',
          values' = [JStr ''user'', JStr ''test'']\<rparr>\<close>
proof (intro conjI impI)
  have cols: "column_text jsToSql (fst (own_property_order dataToUpdate ! i)) =
        spec_column jsToSql (fst (own_property_order dataToUpdate ! i))"
    if "i < length dataToUpdate" for i
  proof -
    from that have "i < length (own_property_order dataToUpdate)"
      by simp
    then have "own_property_order dataToUpdate ! i \<in> set (own_property_order dataToUpdate)"
      by (rule nth_mem)
    then have "fst (own_property_order dataToUpdate ! i) \<in> set (map fst dataToUpdate)"
      by simp
    with assms(2) show ?thesis
      by (intro column_text_spec_column) blast
  qed
  have eq: \<open>map (\<lambda>i. ''"'' @ column_text jsToSql (fst (own_property_order dataToUpdate ! i))
                    @ ''"=$'' @ num_to_string (i + 1)) [0..<length dataToUpdate] =
        map (\<lambda>i. ''"'' @ spec_column jsToSql (fst (own_property_order dataToUpdate ! i))
                    @ ''"=$'' @ num_to_string (i + 1)) [0..<length dataToUpdate]\<close>
    by (rule map_cong) (simp_all add: cols)
  show \<open>sqlForPartialUpdate dataToUpdate jsToSql =
     Inr \<lparr>setCols = spec_setCols (own_property_order dataToUpdate) jsToSql,
          values' = map snd (own_property_order dataToUpdate)\<rparr>\<close>
    by (simp only: sqlForPartialUpdate_nonempty [OF assms(1)] spec_setCols_def
        length_own_property_order eq)
next
  assume "\<forall>k \<in> set (map fst dataToUpdate). array_index k = None"
  then show "own_property_order dataToUpdate = dataToUpdate"
    by (intro own_property_order_no_index) simp
next
  show \<open>sqlForPartialUpdate
        [(''firstName'', JStr ''user''), (''lastName'', JStr ''test'')]
        [''firstName'' \<mapsto> ''first_name'', ''lastName'' \<mapsto> ''last_name''] =
     Inr \<lparr>setCols = ''"first_name"=$1, "last_name"=$2'',
          values' = [JStr ''user'', JStr ''test'']\<rparr>\<close>
    by (simp add: sqlForPartialUpdate_def column_text_def own_property_order_def
        array_index_not_digit is_digit_def num_to_string_digits)
qed

text \<open>The amended claim at the object \<open>{name: "New", "7": null, numEmployees: 10}\<close> with
  the mapping of \<open>Company.update\<close>: a mapped field, an unmapped one and an array-index
  name, which is enumerated first.\<close>

theorem sqlForPartialUpdate_fragment_witness:
  \<open>[(''name'', JStr ''New''), (''7'', JNull), (''numEmployees'', JNum 10)] \<noteq> []
   \<and> (case company_jsToSql ''name'' of
         Some c \<Rightarrow> c \<noteq> [] | None \<Rightarrow> object_prototype ''name'' = None)
   \<and> (case company_jsToSql ''7'' of
         Some c \<Rightarrow> c \<noteq> [] | None \<Rightarrow> object_prototype ''7'' = None)
   \<and> (case company_jsToSql ''numEmployees'' of
         Some c \<Rightarrow> c \<noteq> [] | None \<Rightarrow> object_prototype ''numEmployees'' = None)
   \<and> sqlForPartialUpdate
        [(''name'', JStr ''New''), (''7'', JNull), (''numEmployees'', JNum 10)]
        company_jsToSql =
     Inr \<lparr>setCols = ''"7"=$1, "name"=$2, "num_employees"=$3'',
          values' = [JNull, JStr ''New'', JNum 10]\<rparr>\<close>
proof -
  have order: "own_property_order
        [(''name'', JStr ''New''), (''7'', JNull), (''numEmployees'', JNum 10)] =
      [(''7'', JNull), (''name'', JStr ''New''), (''numEmployees'', JNum 10)]"
    by (simp add: own_property_order_def index_key_def array_index_def digits_value_def
        is_digit_def digit_val_def)
  show ?thesis
    using sqlForPartialUpdate_fragment
      [of "[(''name'', JStr ''New''), (''7'', JNull), (''numEmployees'', JNum 10)]"
          company_jsToSql]
    by (simp add: order spec_setCols_def spec_column_def company_jsToSql_def
        object_prototype_def num_to_string_digits upt_conv_Cons)
qed

text \<open>
  Claim C4: for every mapping, \<open>sqlForPartialUpdate\<close> on the empty object fails with
  \<open>BadRequestError("No data")\<close> (the specification's NoUpdateDataError) and returns no
  fragment.
\<close>

theorem sqlForPartialUpdate_no_data:
  "sqlForPartialUpdate [] jsToSql = Inl (BadRequestError ''No data'')"
  by (simp add: sqlForPartialUpdate_def)

section \<open>Properties of the repository operations\<close>

text \<open>
  Claim C3: for every company filter whose \<open>minEmployees\<close> and \<open>maxEmployees\<close> are both
  numbers with \<open>minEmployees > maxEmployees\<close>, whatever its \<open>name\<close> member is,
  \<open>Company.findAll\<close> fails with \<open>BadRequestError\<close> (the specification's BadRangeError):
  no query text is built, the executor is not called and the store is unchanged.
\<close>

theorem company_findAll_bad_range:
  assumes "minEmployees filter' = JNum a"
    and "maxEmployees filter' = JNum b"
    and "a > b"
  shows "company_findAll_query filter' =
           Inl (BadRequestError ''minimum input can not be higher than maximum input'')
       \<and> company_findAll query filter' s =
           (Inl (BadRequestError ''minimum input can not be higher than maximum input''), s)"
  using assms by (simp add: company_findAll_def company_findAll_query_def js_gt_def)

text \<open>The filter \<open>{minEmployees: 50, maxEmployees: 10}\<close> of the specification.\<close>

theorem company_findAll_bad_range_witness:
  "minEmployees \<lparr>name = JUndefined, minEmployees = JNum 50, maxEmployees = JNum 10\<rparr> = JNum 50
   \<and> maxEmployees \<lparr>name = JUndefined, minEmployees = JNum 50, maxEmployees = JNum 10\<rparr> = JNum 10
   \<and> (50 :: int) > 10
   \<and> company_findAll insert_conflict
        \<lparr>name = JUndefined, minEmployees = JNum 50, maxEmployees = JNum 10\<rparr> 0 =
       (Inl (BadRequestError ''minimum input can not be higher than maximum input''), 0)"
  using company_findAll_bad_range
    [of "\<lparr>name = JUndefined, minEmployees = JNum 50, maxEmployees = JNum 10\<rparr>" 50 10
        insert_conflict 0]
  by simp

text \<open>
  Claim C5, as stated, has \<open>create\<close> turn a uniqueness violation raised by the insert
  into the duplicate error. Neither \<open>create\<close> catches anything: on the store
  \<open>insert_conflict\<close>, where the existence check finds no row and the insert fails with
  error 23505, both return the store's failure itself.
\<close>

theorem create_insert_conflict_counterexample:
  "company_create insert_conflict (JStr ''c1'') (JStr ''C1'') (JStr ''Desc'') (JNum 1) JNull 0 =
     (Inl (StoreError ''23505''), 2)
   \<and> fst (company_create insert_conflict (JStr ''c1'') (JStr ''C1'') (JStr ''Desc'') (JNum 1) JNull 0)
       \<noteq> Inl (BadRequestError ''Duplicate company: c1'')
   \<and> job_create insert_conflict (JNum 4) (JStr ''New'') (JNum 100000) (JNum 0) (JStr ''c1'') 0 =
     (Inl (StoreError ''23505''), 2)
   \<and> fst (job_create insert_conflict (JNum 4) (JStr ''New'') (JNum 100000) (JNum 0) (JStr ''c1'') 0)
       \<noteq> Inl (BadRequestError ''Duplicate job: New'')"
  by (simp add: company_create_def job_create_def insert_conflict_def)

text \<open>
  Claim C5, amended: for every create call (company or job) whose existence check finds
  no row and whose insert raises a failure of the store (a uniqueness violation after a
  concurrent create, for example), the operation propagates that failure unchanged to
  the caller. The duplicate error \<open>BadRequestError\<close> comes from the existence check:
  it is raised, without any insert, when the check returns a row.
\<close>

theorem create_propagates_insert_failure:
  "(query company_duplicate_sql [handle] s = (Inr [], s1)
      \<and> query company_insert_sql [handle, nm, description, numEmployees, logoUrl] s1 = (Inl e, s2)
      \<longrightarrow> company_create query handle nm description numEmployees logoUrl s = (Inl e, s2))
   \<and> (query job_duplicate_sql [id'] s = (Inr [], s1)
      \<and> query job_insert_sql [id', ttl, salary, equity, companyHandle] s1 = (Inl e, s2)
      \<longrightarrow> job_create query id' ttl salary equity companyHandle s = (Inl e, s2))
   \<and> (query' company_duplicate_sql [handle] t = (Inr (r # rs), t1)
      \<longrightarrow> company_create query' handle nm description numEmployees logoUrl t =
            (Inl (BadRequestError (''Duplicate company: '' @ js_to_string handle)), t1))
   \<and> (query' job_duplicate_sql [id'] t = (Inr (r # rs), t1)
      \<longrightarrow> job_create query' id' ttl salary equity companyHandle t =
            (Inl (BadRequestError (''Duplicate job: '' @ js_to_string ttl)), t1))"
  by (simp add: company_create_def job_create_def)

theorem create_propagates_insert_failure_witness:
  "insert_conflict company_duplicate_sql [JStr ''c1''] 0 = (Inr [], 1)
   \<and> insert_conflict company_insert_sql
        [JStr ''c1'', JStr ''C1'', JStr ''Desc'', JNum 1, JNull] 1 = (Inl (StoreError ''23505''), 2)
   \<and> company_create insert_conflict (JStr ''c1'') (JStr ''C1'') (JStr ''Desc'') (JNum 1) JNull 0 =
        (Inl (StoreError ''23505''), 2)
   \<and> insert_conflict job_duplicate_sql [JNum 4] 0 = (Inr [], 1)
   \<and> insert_conflict job_insert_sql
        [JNum 4, JStr ''New'', JNum 100000, JNum 0, JStr ''c1''] 1 = (Inl (StoreError ''23505''), 2)
   \<and> job_create insert_conflict (JNum 4) (JStr ''New'') (JNum 100000) (JNum 0) (JStr ''c1'') 0 =
        (Inl (StoreError ''23505''), 2)
   \<and> existing_key company_duplicate_sql [JStr ''c1''] () = (Inr [[(''handle'', JStr ''c1'')]], ())
   \<and> company_create existing_key (JStr ''c1'') (JStr ''C1'') (JStr ''Desc'') (JNum 1) JNull () =
        (Inl (BadRequestError ''Duplicate company: c1''), ())
   \<and> existing_key job_duplicate_sql [JNum 4] () = (Inr [[(''handle'', JStr ''c1'')]], ())
   \<and> job_create existing_key (JNum 4) (JStr ''New'') (JNum 100000) (JNum 0) (JStr ''c1'') () =
        (Inl (BadRequestError ''Duplicate job: New''), ())"
  using create_propagates_insert_failure
    [of insert_conflict "JStr ''c1''" 0 1 "JStr ''C1''" "JStr ''Desc''" "JNum 1" JNull
        "StoreError ''23505''" 2 "JNum 4" "JStr ''New''" "JNum 100000" "JNum 0" "JStr ''c1''"
        existing_key "()" "[(''handle'', JStr ''c1'')]" "[]" "()"]
  by (simp add: insert_conflict_def existing_key_def)


text \<open>The two builders refine the specification's construction.\<close>

lemma job_findAll_query_refines:
  "job_findAll_query jf =
     \<lparr>queryString = job_select_sql @ spec_where (spec_job_predicates jf) @ '' ORDER BY title'',
      queryAdders = spec_job_predicates jf,
      queryValues = spec_job_values jf\<rparr>"
  by (simp add: job_findAll_query_def spec_job_predicates_def spec_job_values_def Let_def
      num_to_string_digits)

lemma company_findAll_query_refines:
  assumes "\<not> js_gt (minEmployees cf) (maxEmployees cf)"
  shows "company_findAll_query cf =
     Inr \<lparr>queryString =
            company_select_sql @ spec_where (spec_company_predicates cf) @ '' ORDER BY name'',
          queryAdders = spec_company_predicates cf,
          queryValues = spec_company_values cf\<rparr>"
  using assms
  by (simp add: company_findAll_query_def spec_company_predicates_def spec_company_values_def
      Let_def num_to_string_digits)

lemma spec_company_criteria_range:
  assumes "spec_company_criteria cf"
  shows "\<not> js_gt (minEmployees cf) (maxEmployees cf)"
  using assms
  by (auto simp add: spec_company_criteria_def js_gt_def split: jsval.splits)

lemma job_findAll_refines:
  "job_findAll query jf s =
     query (job_select_sql @ spec_where (spec_job_predicates jf) @ '' ORDER BY title'')
       (spec_job_values jf) s"
  by (simp add: job_findAll_def job_findAll_query_refines)

lemma company_findAll_refines:
  assumes "spec_company_criteria cf"
  shows "company_findAll query cf s =
     query (company_select_sql @ spec_where (spec_company_predicates cf) @ '' ORDER BY name'')
       (spec_company_values cf) s"
  by (simp add: company_findAll_def
      company_findAll_query_refines [OF spec_company_criteria_range [OF assms]])

text \<open>The text \<open>equity > 0\<close> occurs in none of the job statements without the equity
  predicate, and in all of those with it.\<close>

lemma no_equity_text:
  "\<not> sublist ''equity > 0'' (job_select_sql @ '' ORDER BY title'')"
  "\<not> sublist ''equity > 0'' (job_select_sql @ '' WHERE title ILIKE $1 ORDER BY title'')"
  "\<not> sublist ''equity > 0'' (job_select_sql @ '' WHERE salary >= $1 ORDER BY title'')"
  "\<not> sublist ''equity > 0''
      (job_select_sql @ '' WHERE title ILIKE $1 AND salary >= $2 ORDER BY title'')"
  by code_simp+

lemma equity_text:
  "sublist ''equity > 0'' (job_select_sql @ '' WHERE equity > 0 ORDER BY title'')"
  "sublist ''equity > 0''
      (job_select_sql @ '' WHERE title ILIKE $1 AND equity > 0 ORDER BY title'')"
  "sublist ''equity > 0''
      (job_select_sql @ '' WHERE salary >= $1 AND equity > 0 ORDER BY title'')"
  "sublist ''equity > 0''
      (job_select_sql @ '' WHERE title ILIKE $1 AND salary >= $2 AND equity > 0 ORDER BY title'')"
  by code_simp+

lemma equity_text_iff:
  "sublist ''equity > 0''
      (job_select_sql @ spec_where (spec_job_predicates jf) @ '' ORDER BY title'')
     \<longleftrightarrow> hasEquity jf = JStr ''true''"
proof (cases "hasEquity jf = JStr ''true''")
  case True
  then show ?thesis
    using equity_text
    by (cases "truthy (title jf)"; cases "minSalary jf = JUndefined")
       (simp_all add: spec_job_predicates_def)
next
  case False
  then show ?thesis
    using no_equity_text
    by (cases "truthy (title jf)"; cases "minSalary jf = JUndefined")
       (simp_all add: spec_job_predicates_def)
qed

text \<open>
  Claim C6: for every job filter (a number given as \<open>title\<close> being a safe integer),
  \<open>Job.findAll\<close>
  submits to the executor the select, the \<open>WHERE\<close> part of the predicates for \<open>title\<close>
  and \<open>minSalary\<close>, and the ordering, where the fixed predicate \<open>equity > 0\<close> is
  appended as the last predicate if and only if \<open>hasEquity\<close> is the string \<open>"true"\<close>; the
  text \<open>equity > 0\<close> occurs in the statement in that case only. The bound values are
  those of \<open>title\<close> and \<open>minSalary\<close> whatever \<open>hasEquity\<close> is: the predicate binds
  nothing and takes no placeholder. For every other value of \<open>hasEquity\<close> (absent,
  \<open>false\<close>, the boolean \<open>true\<close>, anything else) the statement is submitted without the
  predicate, and nothing fails.
\<close>

theorem job_findAll_hasEquity:
  assumes "js_value (title jf)"
  shows "(let preds =
            (if truthy (title jf) then [''title ILIKE $1''] else []) @
            (if minSalary jf \<noteq> JUndefined
             then [if truthy (title jf) then ''salary >= $2'' else ''salary >= $1'']
             else []);
          vals =
            (if truthy (title jf) then [JStr (''%'' @ js_to_string (title jf) @ ''%'')] else []) @
            (if minSalary jf \<noteq> JUndefined then [minSalary jf] else []);
          text =
            job_select_sql
            @ spec_where (preds @ (if hasEquity jf = JStr ''true'' then [''equity > 0''] else []))
            @ '' ORDER BY title''
      in job_findAll query jf s = query text vals s
         \<and> (sublist ''equity > 0'' text \<longleftrightarrow> hasEquity jf = JStr ''true''))"
  using equity_text_iff [of jf]
  by (simp add: Let_def job_findAll_refines spec_job_predicates_def spec_job_values_def)

text \<open>The job filters \<open>{title: "1", hasEquity: "true"}\<close> and, with the boolean,
  \<open>{title: "1", hasEquity: true}\<close>, on the store that records its calls.\<close>

theorem job_findAll_hasEquity_witness:
  "js_value (title \<lparr>title = JStr ''1'', minSalary = JUndefined, hasEquity = JStr ''true''\<rparr>)
   \<and> job_findAll recording
        \<lparr>title = JStr ''1'', minSalary = JUndefined, hasEquity = JStr ''true''\<rparr> [] =
      (Inr [], [(job_select_sql @ '' WHERE title ILIKE $1 AND equity > 0 ORDER BY title'',
                 [JStr ''%1%''])])
   \<and> job_findAll recording
        \<lparr>title = JStr ''1'', minSalary = JUndefined, hasEquity = JBool True\<rparr> [] =
      (Inr [], [(job_select_sql @ '' WHERE title ILIKE $1 ORDER BY title'', [JStr ''%1%''])])"
  using job_findAll_hasEquity
    [of "\<lparr>title = JStr ''1'', minSalary = JUndefined, hasEquity = JStr ''true''\<rparr>"
        recording "[]"]
    job_findAll_refines
    [of recording "\<lparr>title = JStr ''1'', minSalary = JUndefined, hasEquity = JBool True\<rparr>" "[]"]
  by (simp add: js_value_def recording_def Let_def spec_job_predicates_def spec_job_values_def)

text \<open>
  Claim C7, as stated, has every filter with the lower bound 0 build the \<open>>=\<close>
  predicate. For companies the range check comes first and counts 0 as a bound like any
  other number: the filter \<open>{minEmployees: 0, maxEmployees: -1}\<close> fails with
  \<open>BadRequestError\<close>, and no statement reaches the store.
\<close>

theorem lower_bound_zero_range_counterexample:
  "minEmployees \<lparr>name = JUndefined, minEmployees = JNum 0, maxEmployees = JNum (- 1)\<rparr> = JNum 0
   \<and> company_findAll recording
        \<lparr>name = JUndefined, minEmployees = JNum 0, maxEmployees = JNum (- 1)\<rparr> [] =
      (Inl (BadRequestError ''minimum input can not be higher than maximum input''), [])"
  by (simp add: company_findAll_def company_findAll_query_def js_gt_def)

text \<open>
  Claim C7, amended: a numeric lower bound \<open>n\<close>, and so the bound 0 like any other
  number, is treated as present in every job filter and in every company filter that
  passes the range check (\<open>maxEmployees\<close> absent, or an integer not below \<open>n\<close>), a
  number given as substring member being a safe integer: the
  statement submitted to the executor has the \<open>>=\<close> predicate with the next placeholder
  (\<open>$2\<close> after a substring predicate, \<open>$1\<close> otherwise), and \<open>n\<close> is the value bound
  at that position.
\<close>

theorem lower_bound_present:
  "(spec_company_criteria cf \<and> minEmployees cf = JNum n \<longrightarrow>
      company_findAll query cf s =
        query
          (company_select_sql @ '' WHERE ''
           @ (if truthy (name cf) then ''name ILIKE $1 AND num_employees >= $2''
              else ''num_employees >= $1'')
           @ (if maxEmployees cf \<noteq> JUndefined
              then (if truthy (name cf) then '' AND num_employees <= $3''
                    else '' AND num_employees <= $2'')
              else [])
           @ '' ORDER BY name'')
          ((if truthy (name cf) then [JStr (''%'' @ js_to_string (name cf) @ ''%'')] else [])
           @ [JNum n]
           @ (if maxEmployees cf \<noteq> JUndefined then [maxEmployees cf] else []))
          s)
   \<and> (js_value (title jf) \<and> minSalary jf = JNum n \<longrightarrow>
      job_findAll query jf s =
        query
          (job_select_sql @ '' WHERE ''
           @ (if truthy (title jf) then ''title ILIKE $1 AND salary >= $2''
              else ''salary >= $1'')
           @ (if hasEquity jf = JStr ''true'' then '' AND equity > 0'' else [])
           @ '' ORDER BY title'')
          ((if truthy (title jf) then [JStr (''%'' @ js_to_string (title jf) @ ''%'')] else [])
           @ [JNum n])
          s)"
proof (intro conjI impI)
  assume h: "spec_company_criteria cf \<and> minEmployees cf = JNum n"
  then have "spec_company_criteria cf" and "minEmployees cf = JNum n"
    by simp_all
  then show "company_findAll query cf s =
        query
          (company_select_sql @ '' WHERE ''
           @ (if truthy (name cf) then ''name ILIKE $1 AND num_employees >= $2''
              else ''num_employees >= $1'')
           @ (if maxEmployees cf \<noteq> JUndefined
              then (if truthy (name cf) then '' AND num_employees <= $3''
                    else '' AND num_employees <= $2'')
              else [])
           @ '' ORDER BY name'')
          ((if truthy (name cf) then [JStr (''%'' @ js_to_string (name cf) @ ''%'')] else [])
           @ [JNum n]
           @ (if maxEmployees cf \<noteq> JUndefined then [maxEmployees cf] else []))
          s"
    by (simp add: company_findAll_refines spec_company_predicates_def spec_company_values_def)
next
  assume "js_value (title jf) \<and> minSalary jf = JNum n"
  then show "job_findAll query jf s =
        query
          (job_select_sql @ '' WHERE ''
           @ (if truthy (title jf) then ''title ILIKE $1 AND salary >= $2''
              else ''salary >= $1'')
           @ (if hasEquity jf = JStr ''true'' then '' AND equity > 0'' else [])
           @ '' ORDER BY title'')
          ((if truthy (title jf) then [JStr (''%'' @ js_to_string (title jf) @ ''%'')] else [])
           @ [JNum n])
          s"
    by (simp add: job_findAll_refines spec_job_predicates_def spec_job_values_def)
qed

text \<open>The bound 0: the company filter \<open>{name: "net", minEmployees: 0}\<close> and the job
  filter \<open>{minSalary: 0}\<close>, on the store that records its calls.\<close>

theorem lower_bound_present_witness:
  "spec_company_criteria
       \<lparr>name = JStr ''net'', minEmployees = JNum 0, maxEmployees = JUndefined\<rparr>
   \<and> minEmployees \<lparr>name = JStr ''net'', minEmployees = JNum 0, maxEmployees = JUndefined\<rparr> =
       JNum 0
   \<and> company_findAll recording
        \<lparr>name = JStr ''net'', minEmployees = JNum 0, maxEmployees = JUndefined\<rparr> [] =
      (Inr [], [(company_select_sql
                 @ '' WHERE name ILIKE $1 AND num_employees >= $2 ORDER BY name'',
                 [JStr ''%net%'', JNum 0])])
   \<and> js_value (title \<lparr>title = JUndefined, minSalary = JNum 0, hasEquity = JUndefined\<rparr>)
   \<and> minSalary \<lparr>title = JUndefined, minSalary = JNum 0, hasEquity = JUndefined\<rparr> = JNum 0
   \<and> job_findAll recording
        \<lparr>title = JUndefined, minSalary = JNum 0, hasEquity = JUndefined\<rparr> [] =
      (Inr [], [(job_select_sql @ '' WHERE salary >= $1 ORDER BY title'', [JNum 0])])"
  using lower_bound_present
    [of "\<lparr>name = JStr ''net'', minEmployees = JNum 0, maxEmployees = JUndefined\<rparr>" 0
        recording "[]"
        "\<lparr>title = JUndefined, minSalary = JNum 0, hasEquity = JUndefined\<rparr>"]
  by (simp add: spec_company_criteria_def js_value_def recording_def)

text \<open>
  Claim C8: for both entities the empty filter submits the select followed directly by
  the ordering, without the keyword \<open>WHERE\<close>, and no value. In general (for company
  filters of the data model, and a number given as substring member being a safe
  integer) the statement submitted is the select, the \<open>WHERE\<close> part of the predicates present, and the
  ordering, with the values of those predicates: the \<open>WHERE\<close> part is empty when no
  predicate is present, and otherwise has the first predicate after the keyword and
  every further predicate preceded by \<open>" AND "\<close>.
\<close>

theorem findAll_where_clause:
  "company_findAll query
       \<lparr>name = JUndefined, minEmployees = JUndefined, maxEmployees = JUndefined\<rparr> s =
     query (company_select_sql @ '' ORDER BY name'') [] s
   \<and> job_findAll query \<lparr>title = JUndefined, minSalary = JUndefined, hasEquity = JUndefined\<rparr> s =
     query (job_select_sql @ '' ORDER BY title'') [] s
   \<and> \<not> sublist ''WHERE'' (company_select_sql @ '' ORDER BY name'')
   \<and> \<not> sublist ''WHERE'' (job_select_sql @ '' ORDER BY title'')
   \<and> (spec_company_criteria cf \<longrightarrow>
        company_findAll query cf s =
          query
            (company_select_sql @ spec_where (spec_company_predicates cf) @ '' ORDER BY name'')
            (spec_company_values cf) s)
   \<and> (js_value (title jf) \<longrightarrow>
        job_findAll query jf s =
          query (job_select_sql @ spec_where (spec_job_predicates jf) @ '' ORDER BY title'')
            (spec_job_values jf) s)
   \<and> spec_where [] = []
   \<and> spec_where (p # ps) = '' WHERE '' @ p @ concat (map (\<lambda>q. '' AND '' @ q) ps)"
proof (intro conjI impI)
  show "company_findAll query
       \<lparr>name = JUndefined, minEmployees = JUndefined, maxEmployees = JUndefined\<rparr> s =
     query (company_select_sql @ '' ORDER BY name'') [] s"
    by (simp add: company_findAll_def company_findAll_query_def Let_def js_gt_def)
next
  show "job_findAll query \<lparr>title = JUndefined, minSalary = JUndefined, hasEquity = JUndefined\<rparr> s =
     query (job_select_sql @ '' ORDER BY title'') [] s"
    by (simp add: job_findAll_def job_findAll_query_def Let_def)
next
  show "\<not> sublist ''WHERE'' (company_select_sql @ '' ORDER BY name'')"
    by code_simp
next
  show "\<not> sublist ''WHERE'' (job_select_sql @ '' ORDER BY title'')"
    by code_simp
next
  assume "spec_company_criteria cf"
  then show "company_findAll query cf s =
          query
            (company_select_sql @ spec_where (spec_company_predicates cf) @ '' ORDER BY name'')
            (spec_company_values cf) s"
    by (rule company_findAll_refines)
next
  show "job_findAll query jf s =
          query (job_select_sql @ spec_where (spec_job_predicates jf) @ '' ORDER BY title'')
            (spec_job_values jf) s"
    by (rule job_findAll_refines)
next
  show "spec_where [] = []"
    by simp
next
  show "spec_where (p # ps) = '' WHERE '' @ p @ concat (map (\<lambda>q. '' AND '' @ q) ps)"
    by (rule spec_where.simps)
qed

text \<open>A company filter and a job filter with three predicates each, on the store that
  records its calls.\<close>

theorem findAll_where_clause_witness:
  "spec_company_criteria \<lparr>name = JStr ''net'', minEmployees = JNum 1, maxEmployees = JNum 9\<rparr>
   \<and> company_findAll recording
        \<lparr>name = JStr ''net'', minEmployees = JNum 1, maxEmployees = JNum 9\<rparr> [] =
      (Inr [], [(company_select_sql @
          '' WHERE name ILIKE $1 AND num_employees >= $2 AND num_employees <= $3 ORDER BY name'',
          [JStr ''%net%'', JNum 1, JNum 9])])
   \<and> js_value (title \<lparr>title = JStr ''1'', minSalary = JNum 100, hasEquity = JStr ''true''\<rparr>)
   \<and> job_findAll recording
        \<lparr>title = JStr ''1'', minSalary = JNum 100, hasEquity = JStr ''true''\<rparr> [] =
      (Inr [], [(job_select_sql @
          '' WHERE title ILIKE $1 AND salary >= $2 AND equity > 0 ORDER BY title'',
          [JStr ''%1%'', JNum 100])])"
  using findAll_where_clause
    [of recording "[]"
        "\<lparr>name = JStr ''net'', minEmployees = JNum 1, maxEmployees = JNum 9\<rparr>"
        "\<lparr>title = JStr ''1'', minSalary = JNum 100, hasEquity = JStr ''true''\<rparr>"]
  by (simp add: spec_company_criteria_def js_value_def recording_def
      spec_company_predicates_def spec_company_values_def
      spec_job_predicates_def spec_job_values_def)

text \<open>
  Claim C10: a company filter whose \<open>name\<close> is the empty string, and a job filter whose
  \<open>title\<close> is the empty string, build exactly what the filter without that member
  builds: no substring predicate and no bound value. A numeric lower bound 0 is not
  treated so: the filter with the bound 0 never builds what the filter without the bound
  builds.
\<close>

theorem empty_string_filter_absent:
  "company_findAll_query (cf\<lparr>name := JStr ''''\<rparr>) =
     company_findAll_query (cf\<lparr>name := JUndefined\<rparr>)
   \<and> job_findAll_query (jf\<lparr>title := JStr ''''\<rparr>) =
     job_findAll_query (jf\<lparr>title := JUndefined\<rparr>)
   \<and> company_findAll_query (cf\<lparr>minEmployees := JNum 0\<rparr>) \<noteq>
     company_findAll_query (cf\<lparr>minEmployees := JUndefined\<rparr>)
   \<and> job_findAll_query (jf\<lparr>minSalary := JNum 0\<rparr>) \<noteq>
     job_findAll_query (jf\<lparr>minSalary := JUndefined\<rparr>)"
  by (simp add: company_findAll_query_def job_findAll_query_def js_gt_def Let_def)


text \<open>
  Claim C2, as stated, makes the statement text of \<open>findAll\<close> a function of the field
  names supplied. The presence test of the substring filter is truthiness, not presence
  of the member: the company filters \<open>{name: ""}\<close> and \<open>{name: "net"}\<close> supply the same
  field and differ only in its value, and their statements differ (the first has no
  \<open>WHERE\<close> part); likewise the job filters \<open>{title: ""}\<close> and \<open>{title: "1"}\<close>.
\<close>

theorem findAll_text_depends_on_value_counterexample:
  "company_supplied \<lparr>name = JStr '''', minEmployees = JUndefined, maxEmployees = JUndefined\<rparr> =
     company_supplied \<lparr>name = JStr ''net'', minEmployees = JUndefined, maxEmployees = JUndefined\<rparr>
   \<and> company_findAll_query
        \<lparr>name = JStr '''', minEmployees = JUndefined, maxEmployees = JUndefined\<rparr> =
     Inr \<lparr>queryString = company_select_sql @ '' ORDER BY name'',
          queryAdders = [], queryValues = []\<rparr>
   \<and> company_findAll_query
        \<lparr>name = JStr ''net'', minEmployees = JUndefined, maxEmployees = JUndefined\<rparr> =
     Inr \<lparr>queryString = company_select_sql @ '' WHERE name ILIKE $1 ORDER BY name'',
          queryAdders = [''name ILIKE $1''], queryValues = [JStr ''%net%'']\<rparr>
   \<and> company_select_sql @ '' ORDER BY name'' \<noteq>
     company_select_sql @ '' WHERE name ILIKE $1 ORDER BY name''
   \<and> job_supplied \<lparr>title = JStr '''', minSalary = JUndefined, hasEquity = JUndefined\<rparr> =
     job_supplied \<lparr>title = JStr ''1'', minSalary = JUndefined, hasEquity = JUndefined\<rparr>
   \<and> queryString (job_findAll_query
        \<lparr>title = JStr '''', minSalary = JUndefined, hasEquity = JUndefined\<rparr>) \<noteq>
     queryString (job_findAll_query
        \<lparr>title = JStr ''1'', minSalary = JUndefined, hasEquity = JUndefined\<rparr>)"
  by (simp add: company_supplied_def job_supplied_def company_findAll_query_def
      job_findAll_query_def js_gt_def Let_def num_to_string_digits)

text \<open>
  Claim C2, amended: the statement text never contains a bound value. For
  \<open>sqlForPartialUpdate\<close>, two objects with the same field names in the same order give
  the same fragment (or both fail), whatever their values. For \<open>findAll\<close>, two filters
  that agree on which predicates are present (the substring member is truthy in both or
  in neither, each numeric bound is \<open>undefined\<close> in both or in neither, and for jobs
  \<open>hasEquity\<close> is the same) build the same statement text, whatever their values;
  for companies this is for filters that pass the range check. The values are passed to
  the executor in the value sequence only.
\<close>

theorem sql_text_independent_of_values:
  "(map fst data1 = map fst data2 \<longrightarrow>
      map_sum (\<lambda>e. e) setCols (sqlForPartialUpdate data1 jsToSql) =
      map_sum (\<lambda>e. e) setCols (sqlForPartialUpdate data2 jsToSql))
   \<and> (truthy (name cf1) = truthy (name cf2)
      \<and> (minEmployees cf1 = JUndefined) = (minEmployees cf2 = JUndefined)
      \<and> (maxEmployees cf1 = JUndefined) = (maxEmployees cf2 = JUndefined)
      \<and> company_findAll_query cf1 = Inr l1 \<and> company_findAll_query cf2 = Inr l2
      \<longrightarrow> queryString l1 = queryString l2 \<and> queryAdders l1 = queryAdders l2)
   \<and> (truthy (title jf1) = truthy (title jf2)
      \<and> (minSalary jf1 = JUndefined) = (minSalary jf2 = JUndefined)
      \<and> hasEquity jf1 = hasEquity jf2
      \<longrightarrow> queryString (job_findAll_query jf1) = queryString (job_findAll_query jf2)
        \<and> queryAdders (job_findAll_query jf1) = queryAdders (job_findAll_query jf2))"
proof (intro conjI impI)
  assume keys: "map fst data1 = map fst data2"
  then have "(data1 = []) = (data2 = [])"
    by (metis map_is_Nil_conv)
  moreover from keys
  have "map fst (own_property_order data1) = map fst (own_property_order data2)"
    by (simp only: map_fst_own_property_order)
  ultimately show "map_sum (\<lambda>e. e) setCols (sqlForPartialUpdate data1 jsToSql) =
      map_sum (\<lambda>e. e) setCols (sqlForPartialUpdate data2 jsToSql)"
    by (simp add: sqlForPartialUpdate_def Let_def)
next
  assume h: "truthy (name cf1) = truthy (name cf2)
      \<and> (minEmployees cf1 = JUndefined) = (minEmployees cf2 = JUndefined)
      \<and> (maxEmployees cf1 = JUndefined) = (maxEmployees cf2 = JUndefined)
      \<and> company_findAll_query cf1 = Inr l1 \<and> company_findAll_query cf2 = Inr l2"
  then show "queryString l1 = queryString l2"
    by (auto simp add: company_findAll_query_def Let_def split: if_splits)
  from h show "queryAdders l1 = queryAdders l2"
    by (auto simp add: company_findAll_query_def Let_def split: if_splits)
next
  assume h: "truthy (title jf1) = truthy (title jf2)
      \<and> (minSalary jf1 = JUndefined) = (minSalary jf2 = JUndefined)
      \<and> hasEquity jf1 = hasEquity jf2"
  then show "queryString (job_findAll_query jf1) = queryString (job_findAll_query jf2)"
    by (auto simp add: job_findAll_query_def Let_def split: if_splits)
  from h show "queryAdders (job_findAll_query jf1) = queryAdders (job_findAll_query jf2)"
    by (auto simp add: job_findAll_query_def Let_def split: if_splits)
qed

text \<open>Pairs of inputs with the same members and different values.\<close>

theorem sql_text_independent_of_values_witness:
  \<open>map fst [(''name'', JStr ''A''), (''logoUrl'', JNull)] =
     map fst [(''name'', JStr ''B''), (''logoUrl'', JStr ''http://b.img'')]
   \<and> map_sum (\<lambda>e. e) setCols
        (sqlForPartialUpdate [(''name'', JStr ''A''), (''logoUrl'', JNull)] company_jsToSql) =
     Inr ''"name"=$1, "logo_url"=$2''
   \<and> map_sum (\<lambda>e. e) setCols
        (sqlForPartialUpdate [(''name'', JStr ''B''), (''logoUrl'', JStr ''http://b.img'')]
           company_jsToSql) =
     Inr ''"name"=$1, "logo_url"=$2''
   \<and> company_findAll_query \<lparr>name = JStr ''a'', minEmployees = JNum 1, maxEmployees = JUndefined\<rparr> =
     Inr \<lparr>queryString =
            company_select_sql @ '' WHERE name ILIKE $1 AND num_employees >= $2 ORDER BY name'',
          queryAdders = [''name ILIKE $1'', ''num_employees >= $2''],
          queryValues = [JStr ''%a%'', JNum 1]\<rparr>
   \<and> company_findAll_query \<lparr>name = JStr ''b'', minEmployees = JNum 7, maxEmployees = JUndefined\<rparr> =
     Inr \<lparr>queryString =
            company_select_sql @ '' WHERE name ILIKE $1 AND num_employees >= $2 ORDER BY name'',
          queryAdders = [''name ILIKE $1'', ''num_employees >= $2''],
          queryValues = [JStr ''%b%'', JNum 7]\<rparr>
   \<and> queryString (job_findAll_query
        \<lparr>title = JStr ''1'', minSalary = JUndefined, hasEquity = JStr ''true''\<rparr>) =
     job_select_sql @ '' WHERE title ILIKE $1 AND equity > 0 ORDER BY title''
   \<and> queryString (job_findAll_query
        \<lparr>title = JStr ''2'', minSalary = JUndefined, hasEquity = JStr ''true''\<rparr>) =
     job_select_sql @ '' WHERE title ILIKE $1 AND equity > 0 ORDER BY title''\<close>
  using sql_text_independent_of_values
    [of "[(''name'', JStr ''A''), (''logoUrl'', JNull)]"
        "[(''name'', JStr ''B''), (''logoUrl'', JStr ''http://b.img'')]"
        company_jsToSql
        "\<lparr>name = JStr ''a'', minEmployees = JNum 1, maxEmployees = JUndefined\<rparr>"
        "\<lparr>name = JStr ''b'', minEmployees = JNum 7, maxEmployees = JUndefined\<rparr>"
        "\<lparr>queryString =
            company_select_sql @ '' WHERE name ILIKE $1 AND num_employees >= $2 ORDER BY name'',
          queryAdders = [''name ILIKE $1'', ''num_employees >= $2''],
          queryValues = [JStr ''%a%'', JNum 1]\<rparr>"
        "\<lparr>queryString =
            company_select_sql @ '' WHERE name ILIKE $1 AND num_employees >= $2 ORDER BY name'',
          queryAdders = [''name ILIKE $1'', ''num_employees >= $2''],
          queryValues = [JStr ''%b%'', JNum 7]\<rparr>"
        "\<lparr>title = JStr ''1'', minSalary = JUndefined, hasEquity = JStr ''true''\<rparr>"
        "\<lparr>title = JStr ''2'', minSalary = JUndefined, hasEquity = JStr ''true''\<rparr>"]
  by (simp add: sqlForPartialUpdate_def company_jsToSql_def company_findAll_query_def
      job_findAll_query_def js_gt_def Let_def num_to_string_digits column_text_def
      object_prototype_def own_property_order_def array_index_not_digit is_digit_def)


text \<open>
  Claim C9: every update (company or job) with non-empty data of \<open>N\<close> entries submits
  to the executor one statement: the fixed template around the \<open>SET\<close> fragment of
  \<open>sqlForPartialUpdate\<close>, whose placeholders are \<open>$1..$N\<close>, with the placeholder
  \<open>$(N+1)\<close> for the row identifier; the values submitted are the \<open>N\<close> values of the
  entries followed by the identifier as the last one. The identifier occurs in the values
  only, not in the statement text. The result of the update is the executor's failure,
  the first row it returns, or \<open>NotFoundError\<close> when it returns no row.
\<close>

theorem update_appends_identifier:
  assumes "data \<noteq> []" and "jdata \<noteq> []"
    and "js_value handle" and "js_value id'"
  shows \<open>company_update query handle data s =
     (case query
        (''UPDATE companies \<newline>'' @
         ''                      SET '' @
         join '', ''
           (map (\<lambda>i. ''"'' @ column_text company_jsToSql (fst (own_property_order data ! i))
                         @ ''"=$'' @ num_to_string (i + 1))
                [0..<length data]) @ '' \<newline>'' @
         ''                      WHERE handle = $'' @ num_to_string (length data + 1) @ '' \<newline>'' @
         ''                      RETURNING handle, \<newline>'' @
         ''                                name, \<newline>'' @
         ''                                description, \<newline>'' @
         ''                                num_employees AS "numEmployees", \<newline>'' @
         ''                                logo_url AS "logoUrl"'')
        (map snd (own_property_order data) @ [handle]) s of
        (Inl e, s1) \<Rightarrow> (Inl e, s1)
      | (Inr [], s1) \<Rightarrow> (Inl (NotFoundError (''No company: '' @ js_to_string handle)), s1)
      | (Inr (company # rest), s1) \<Rightarrow> (Inr company, s1))
   \<and> job_update query id' jdata s =
     (case query
        (''UPDATE jobs \<newline>'' @
         ''                    SET '' @
         join '', ''
           (map (\<lambda>i. ''"'' @ column_text job_jsToSql (fst (own_property_order jdata ! i))
                         @ ''"=$'' @ num_to_string (i + 1))
                [0..<length jdata]) @ '' \<newline>'' @
         ''                    WHERE id = $'' @ num_to_string (length jdata + 1) @ '' \<newline>'' @
         ''                    RETURNING id, \<newline>'' @
         ''                            title, \<newline>'' @
         ''                            salary, \<newline>'' @
         ''                            equity, \<newline>'' @
         ''                            company_handle AS "companyHandle"'')
        (map snd (own_property_order jdata) @ [id']) s of
        (Inl e, s1) \<Rightarrow> (Inl e, s1)
      | (Inr [], s1) \<Rightarrow> (Inl (NotFoundError (''No job: '' @ js_to_string id')), s1)
      | (Inr (job # rest), s1) \<Rightarrow> (Inr job, s1))\<close>
  by (simp add: company_update_def job_update_def company_update_query_def
      job_update_query_def sqlForPartialUpdate_nonempty [OF assms(1)]
      sqlForPartialUpdate_nonempty [OF assms(2)] Let_def
      split: prod.splits sum.splits list.splits)

text \<open>The update of a company's name and number of employees and of a job's title, on
  the store that records its calls (and returns no row).\<close>

theorem update_appends_identifier_witness:
  \<open>[(''name'', JStr ''New''), (''numEmployees'', JNum 10)] \<noteq> []
   \<and> [(''title'', JStr ''New'')] \<noteq> []
   \<and> js_value (JStr ''c1'') \<and> js_value (JNum 1)
   \<and> company_update recording (JStr ''c1'')
        [(''name'', JStr ''New''), (''numEmployees'', JNum 10)] [] =
     (Inl (NotFoundError ''No company: c1''),
      [(''UPDATE companies \<newline>'' @
        ''                      SET "name"=$1, "num_employees"=$2 \<newline>'' @
        ''                      WHERE handle = $3 \<newline>'' @
        ''                      RETURNING handle, \<newline>'' @
        ''                                name, \<newline>'' @
        ''                                description, \<newline>'' @
        ''                                num_employees AS "numEmployees", \<newline>'' @
        ''                                logo_url AS "logoUrl"'',
        [JStr ''New'', JNum 10, JStr ''c1''])])
   \<and> job_update recording (JNum 1) [(''title'', JStr ''New'')] [] =
     (Inl (NotFoundError ''No job: 1''),
      [(''UPDATE jobs \<newline>'' @
        ''                    SET "title"=$1 \<newline>'' @
        ''                    WHERE id = $2 \<newline>'' @
        ''                    RETURNING id, \<newline>'' @
        ''                            title, \<newline>'' @
        ''                            salary, \<newline>'' @
        ''                            equity, \<newline>'' @
        ''                            company_handle AS "companyHandle"'',
        [JStr ''New'', JNum 1])])\<close>
proof -
  have order:
    "own_property_order [(''name'', JStr ''New''), (''numEmployees'', JNum 10)] =
       [(''name'', JStr ''New''), (''numEmployees'', JNum 10)]"
    "own_property_order [(''title'', JStr ''New'')] = [(''title'', JStr ''New'')]"
    by (simp_all add: own_property_order_def array_index_not_digit is_digit_def)
  show ?thesis
    using update_appends_identifier
      [of "[(''name'', JStr ''New''), (''numEmployees'', JNum 10)]" "[(''title'', JStr ''New'')]"
          "JStr ''c1''" "JNum 1" recording "[]"]
    by (simp add: order js_value_def recording_def column_text_def object_prototype_def
        company_jsToSql_def job_jsToSql_def num_to_string_digits upt_conv_Cons
        int_to_string_def)
qed

end
